theory Spec2Isabelle
  imports Main "HOL-Library.Word"
begin

unbundle bit_operations_syntax

section \<open>Data model of jabra\_hiddev\_demo.c\<close>

text \<open>
  C \<open>int\<close> and \<open>__s32\<close> are 32-bit words read in two's complement (\<open><s\<close>, \<open>sint\<close>);
  \<open>unsigned\<close> and \<open>__u32\<close> are 32-bit words read unsigned; \<open>__u16\<close> is a 16-bit word.
\<close>

type_synonym u32 = "32 word"
type_synonym s32 = "32 word"
type_synonym u16 = "16 word"

subsection \<open>Constants of the program (lines 60--119) and of linux/hiddev.h\<close>

definition JABRA_VID :: u16 where "JABRA_VID = 0x0B0E"

definition TelephonyUsagePage :: u16 where "TelephonyUsagePage = 0x000B"
definition ConsumerUsagePage :: u16 where "ConsumerUsagePage = 0x000C"
definition LEDUsagePage :: u16 where "LEDUsagePage = 0x0008"
definition ButtonUsagePage :: u16 where "ButtonUsagePage = 0x0009"

definition Led_Mute :: u16 where "Led_Mute = 0x0009"
definition Led_Off_Hook :: u16 where "Led_Off_Hook = 0x0017"
definition Led_Ring :: u16 where "Led_Ring = 0x0018"

definition Tel_Hook_Switch :: u16 where "Tel_Hook_Switch = 0x0020"
definition Tel_Phone_Mute :: u16 where "Tel_Phone_Mute = 0x002F"
definition Tel_Ringer :: u16 where "Tel_Ringer = 0x009E"

definition Con_Volume_Incr :: u16 where "Con_Volume_Incr = 0x00E9"
definition Con_Volume_Decr :: u16 where "Con_Volume_Decr = 0x00EA"

text \<open>
  The header linux/hiddev.h is not part of the repository; the three values below are
  the ones it declares (\<open>HID_REPORT_TYPE_OUTPUT = 2\<close>,
  \<open>HID_REPORT_ID_UNKNOWN = 0xffffffff\<close>, and \<open>struct hiddev_event\<close> made of an
  \<open>unsigned\<close> and a \<open>signed int\<close>, eight bytes).
\<close>

definition HID_REPORT_TYPE_OUTPUT :: u32 where "HID_REPORT_TYPE_OUTPUT = 2"
definition HID_REPORT_ID_UNKNOWN :: u32 where "HID_REPORT_ID_UNKNOWN = 0xffffffff"
definition sizeof_hiddev_event :: s32 where "sizeof_hiddev_event = 8"

definition ENOENT :: s32 where "ENOENT = 2"
definition EACCES :: s32 where "EACCES = 13"

subsection \<open>The structures exchanged with the hiddev driver\<close>

record hiddev_usage_ref =
  uref_report_type :: u32
  uref_report_id :: u32
  uref_field_index :: u32
  uref_usage_index :: u32
  uref_usage_code :: u32
  uref_value :: s32

record hiddev_field_info =
  finfo_report_type :: u32
  finfo_report_id :: u32
  finfo_field_index :: u32
  maxusage :: u32
  flags :: u32
  physical :: u32
  logical :: u32
  application :: u32
  logical_minimum :: s32
  logical_maximum :: s32
  physical_minimum :: s32
  physical_maximum :: s32
  unit_exponent :: u32
  finfo_unit :: u32

record hiddev_report_info =
  rinfo_report_type :: u32
  rinfo_report_id :: u32
  num_fields :: u32

record hiddev_event =
  hid :: u32
  ev_value :: s32

subsection \<open>Observable effects: the ioctl history and the console\<close>

text \<open>
  Every \<open>ioctl\<close> the program issues is appended to a history, with the descriptor and
  the structure as passed in. Console output is kept as the format string and the
  arguments handed to \<open>printf\<close>/\<open>fprintf\<close>; \<open>perror\<close> keeps its prefix.
\<close>

datatype ioctl_request =
    HIDIOCGUSAGE hiddev_usage_ref
  | HIDIOCGFIELDINFO hiddev_field_info
  | HIDIOCSUSAGE hiddev_usage_ref
  | HIDIOCSREPORT hiddev_report_info
  | HIDIOCINITREPORT
  | HIDIOCGNAME

datatype ioctl_call = Ioctl s32 ioctl_request

datatype fmt_arg = S string | D s32 | X u32

datatype output_line =
    Stdout string "fmt_arg list"
  | Stderr string "fmt_arg list"
  | Perror string

subsection \<open>The driver as a parameter\<close>

text \<open>
  The kernel side of the hiddev interface is outside the repository. It is a parameter:
  a driver state \<open>'d\<close> and, for each request the program uses, a function from the
  driver state, the descriptor and the structure passed in to the return code, the
  structure as written back (for the two \<open>G\<close> requests) and the next driver state.
  The automatic variables \<open>uref\<close>, \<open>finfo\<close> and \<open>rinfo\<close> of \<open>writeUsage\<close> and
  \<open>readUsage\<close> are not initialised; their indeterminate contents at function entry are
  given by \<open>auto_uref\<close>, \<open>auto_finfo\<close> and \<open>auto_rinfo\<close>.
\<close>

record 'd hiddev =
  gusage :: "'d \<Rightarrow> s32 \<Rightarrow> hiddev_usage_ref \<Rightarrow> s32 \<times> hiddev_usage_ref \<times> 'd"
  gfieldinfo :: "'d \<Rightarrow> s32 \<Rightarrow> hiddev_field_info \<Rightarrow> s32 \<times> hiddev_field_info \<times> 'd"
  susage :: "'d \<Rightarrow> s32 \<Rightarrow> hiddev_usage_ref \<Rightarrow> s32 \<times> 'd"
  sreport :: "'d \<Rightarrow> s32 \<Rightarrow> hiddev_report_info \<Rightarrow> s32 \<times> 'd"
  initreport :: "'d \<Rightarrow> s32 \<Rightarrow> 'd"
  gname :: "'d \<Rightarrow> s32 \<Rightarrow> string \<Rightarrow> string \<times> 'd"
  auto_uref :: "'d \<Rightarrow> hiddev_usage_ref"
  auto_finfo :: "'d \<Rightarrow> hiddev_field_info"
  auto_rinfo :: "'d \<Rightarrow> hiddev_report_info"

subsection \<open>PRIVATE DATA (lines 124--128) and the world around it\<close>

record 'd state =
  fd :: s32
  mutestate :: s32
  hookstate :: s32
  ringerstate :: s32
  run :: s32
  dev :: 'd
  ioctls :: "ioctl_call list"
  console :: "output_line list"

definition perror :: "string \<Rightarrow> 'd state \<Rightarrow> 'd state" where
  "perror msg s = s\<lparr>console := console s @ [Perror msg]\<rparr>"

definition fprintf_stdout :: "string \<Rightarrow> fmt_arg list \<Rightarrow> 'd state \<Rightarrow> 'd state" where
  "fprintf_stdout fmt args s = s\<lparr>console := console s @ [Stdout fmt args]\<rparr>"

definition fprintf_stderr :: "string \<Rightarrow> fmt_arg list \<Rightarrow> 'd state \<Rightarrow> 'd state" where
  "fprintf_stderr fmt args s = s\<lparr>console := console s @ [Stderr fmt args]\<rparr>"

definition ioctl_GUSAGE ::
  "'d hiddev \<Rightarrow> s32 \<Rightarrow> hiddev_usage_ref \<Rightarrow> 'd state \<Rightarrow> s32 \<times> hiddev_usage_ref \<times> 'd state" where
  "ioctl_GUSAGE io f uref s =
     (case gusage io (dev s) f uref of
        (r, uref', d') \<Rightarrow>
          (r, uref', s\<lparr>dev := d', ioctls := ioctls s @ [Ioctl f (HIDIOCGUSAGE uref)]\<rparr>))"

definition ioctl_GFIELDINFO ::
  "'d hiddev \<Rightarrow> s32 \<Rightarrow> hiddev_field_info \<Rightarrow> 'd state \<Rightarrow> s32 \<times> hiddev_field_info \<times> 'd state" where
  "ioctl_GFIELDINFO io f finfo s =
     (case gfieldinfo io (dev s) f finfo of
        (r, finfo', d') \<Rightarrow>
          (r, finfo', s\<lparr>dev := d', ioctls := ioctls s @ [Ioctl f (HIDIOCGFIELDINFO finfo)]\<rparr>))"

definition ioctl_SUSAGE ::
  "'d hiddev \<Rightarrow> s32 \<Rightarrow> hiddev_usage_ref \<Rightarrow> 'd state \<Rightarrow> s32 \<times> 'd state" where
  "ioctl_SUSAGE io f uref s =
     (case susage io (dev s) f uref of
        (r, d') \<Rightarrow> (r, s\<lparr>dev := d', ioctls := ioctls s @ [Ioctl f (HIDIOCSUSAGE uref)]\<rparr>))"

definition ioctl_SREPORT ::
  "'d hiddev \<Rightarrow> s32 \<Rightarrow> hiddev_report_info \<Rightarrow> 'd state \<Rightarrow> s32 \<times> 'd state" where
  "ioctl_SREPORT io f rinfo s =
     (case sreport io (dev s) f rinfo of
        (r, d') \<Rightarrow> (r, s\<lparr>dev := d', ioctls := ioctls s @ [Ioctl f (HIDIOCSREPORT rinfo)]\<rparr>))"

section \<open>PRIVATE FUNCTIONS\<close>

subsection \<open>usagePageName (lines 140--150)\<close>

definition usagePageName :: "u32 \<Rightarrow> string" where
  "usagePageName usage_code =
     (let hi :: u16 = ucast (drop_bit 16 usage_code AND 0xFFFF) in
      if hi = TelephonyUsagePage then ''TelephonyUsagePage''
      else if hi = ConsumerUsagePage then ''ConsumerUsagePage''
      else if hi = LEDUsagePage then ''LEDUsagePage''
      else if hi = ButtonUsagePage then ''ButtonUsagePage''
      else ''not translated'')"

subsection \<open>writeUsage (lines 240--305)\<close>

text \<open>
  The three blocks of assignments that fill the request structures are named, so that
  statements about the history can mention the structure that was passed.
\<close>

definition find_uref :: "'d hiddev \<Rightarrow> 'd \<Rightarrow> u32 \<Rightarrow> u32 \<Rightarrow> u32 \<Rightarrow> hiddev_usage_ref" where
  "find_uref io d report_type page code =
     (auto_uref io d)\<lparr>uref_report_type := report_type,
                      uref_report_id := HID_REPORT_ID_UNKNOWN,
                      uref_usage_code := push_bit 16 page OR code\<rparr>"

definition field_of :: "'d hiddev \<Rightarrow> 'd \<Rightarrow> hiddev_usage_ref \<Rightarrow> hiddev_field_info" where
  "field_of io d uref =
     (auto_finfo io d)\<lparr>finfo_report_type := uref_report_type uref,
                       finfo_report_id := uref_report_id uref,
                       finfo_field_index := uref_field_index uref\<rparr>"

definition report_of :: "'d hiddev \<Rightarrow> 'd \<Rightarrow> hiddev_usage_ref \<Rightarrow> hiddev_report_info" where
  "report_of io d uref =
     (auto_rinfo io d)\<lparr>rinfo_report_type := uref_report_type uref,
                       rinfo_report_id := uref_report_id uref\<rparr>"

definition range_fmt :: string where
  "range_fmt = ''%s: value %d outside of allowed range (%d-%d)\<newline>''"

definition writeUsage ::
  "'d hiddev \<Rightarrow> s32 \<Rightarrow> u32 \<Rightarrow> u32 \<Rightarrow> u32 \<Rightarrow> s32 \<Rightarrow> 'd state \<Rightarrow> 'd state" where
  "writeUsage io f report_type page code v s0 =
     (let d0 = dev s0 in
      case ioctl_GUSAGE io f (find_uref io d0 report_type page code) s0 of
        (r, uref, s) \<Rightarrow>
          if r <s 0 then perror ''HIDIOCGUSAGE'' s
          else
            (case ioctl_GFIELDINFO io f (field_of io d0 uref) s of
               (r, finfo, s) \<Rightarrow>
                 if r <s 0 then perror ''HIDIOCGFIELDINFO'' s
                 else if v <s logical_minimum finfo \<or> logical_maximum finfo <s v then
                   fprintf_stdout range_fmt
                     [S (usagePageName (uref_usage_code uref)), D v,
                      D (logical_minimum finfo), D (logical_maximum finfo)] s
                 else
                   (let uref = uref\<lparr>uref_value := v\<rparr> in
                    case ioctl_SUSAGE io f uref s of
                      (r, s) \<Rightarrow>
                        if r <s 0 then perror ''HIDIOCSUSAGE'' s
                        else
                          (case ioctl_SREPORT io f (report_of io d0 uref) s of
                             (r, s) \<Rightarrow>
                               if r <s 0 then perror ''HIDIOCSREPORT'' s else s))))"

subsection \<open>readUsage (lines 307--374)\<close>

text \<open>
  The out-parameter \<open>__s32 *value\<close> is a pointer to one of the program's \<open>int\<close>
  objects; \<open>store\<close> and \<open>load\<close> are the write and the read through it.
\<close>

datatype int_ptr = Addr_fd | Addr_mutestate | Addr_hookstate | Addr_ringerstate | Addr_run

fun load :: "int_ptr \<Rightarrow> 'd state \<Rightarrow> s32" where
  "load Addr_fd s = fd s"
| "load Addr_mutestate s = mutestate s"
| "load Addr_hookstate s = hookstate s"
| "load Addr_ringerstate s = ringerstate s"
| "load Addr_run s = run s"

fun store :: "int_ptr \<Rightarrow> s32 \<Rightarrow> 'd state \<Rightarrow> 'd state" where
  "store Addr_fd v s = s\<lparr>fd := v\<rparr>"
| "store Addr_mutestate v s = s\<lparr>mutestate := v\<rparr>"
| "store Addr_hookstate v s = s\<lparr>hookstate := v\<rparr>"
| "store Addr_ringerstate v s = s\<lparr>ringerstate := v\<rparr>"
| "store Addr_run v s = s\<lparr>run := v\<rparr>"

definition readUsage ::
  "'d hiddev \<Rightarrow> s32 \<Rightarrow> u32 \<Rightarrow> u32 \<Rightarrow> u32 \<Rightarrow> int_ptr \<Rightarrow> 'd state \<Rightarrow> 'd state" where
  "readUsage io f report_type page code p s0 =
     (let d0 = dev s0 in
      case ioctl_GUSAGE io f (find_uref io d0 report_type page code) s0 of
        (r, uref, s) \<Rightarrow>
          if r <s 0 then perror ''HIDIOCGUSAGE'' s
          else
            (case ioctl_GFIELDINFO io f (field_of io d0 uref) s of
               (r, finfo, s) \<Rightarrow>
                 if r <s 0 then perror ''HIDIOCGFIELDINFO'' s
                 else
                   (case ioctl_GUSAGE io f uref s of
                      (r, uref, s) \<Rightarrow>
                        if r <s 0 then perror ''HIDIOCGUSAGE'' s
                        else
                          (let s = store p (uref_value uref) s in
                           case ioctl_SREPORT io f (report_of io d0 uref) s of
                             (r, s) \<Rightarrow>
                               if r <s 0 then perror ''HIDIOCSREPORT'' s else s))))"

subsection \<open>The body of the event loop, for one event (lines 405--450)\<close>

text \<open>
  \<open>lnot\<close> is C's \<open>!\<close> on an \<open>int\<close>. \<open>process_event\<close> is what \<open>event_loop\<close> does
  for \<open>ev[i]\<close> between \<open>pthread_mutex_lock\<close> and \<open>pthread_mutex_unlock\<close>; the
  \<open>debug\<close> print before the lock is dead code (\<open>debug = 0\<close>).
\<close>

definition lnot :: "s32 \<Rightarrow> s32" where
  "lnot x = (if x = 0 then 1 else 0)"

definition process_event :: "'d hiddev \<Rightarrow> hiddev_event \<Rightarrow> 'd state \<Rightarrow> 'd state" where
  "process_event io ev s =
     (if drop_bit 16 (hid ev) = ucast TelephonyUsagePage then
        (if hid ev AND 0xFFFF = ucast Tel_Hook_Switch then
           (if hookstate s \<noteq> ev_value ev then
              (let s = (if hookstate s = 0 then
                          (let s = writeUsage io (fd s) HID_REPORT_TYPE_OUTPUT
                                     (ucast LEDUsagePage) (ucast Led_Ring) 0 s
                           in writeUsage io (fd s) HID_REPORT_TYPE_OUTPUT
                                (ucast TelephonyUsagePage) (ucast Tel_Ringer) 0 s)
                        else s);
                   s = writeUsage io (fd s) HID_REPORT_TYPE_OUTPUT
                         (ucast LEDUsagePage) (ucast Led_Off_Hook) (ev_value ev) s;
                   s = s\<lparr>hookstate := ev_value ev\<rparr>
               in if hookstate s = 0 then fprintf_stdout ''--> Hook in place\<newline>'' [] s
                  else fprintf_stdout ''--> Hook lifted\<newline>'' [] s)
            else s)
         else if hid ev AND 0xFFFF = ucast Tel_Phone_Mute then
           (if ev_value ev = 1 then
              (let s = s\<lparr>mutestate := lnot (mutestate s)\<rparr>;
                   s = writeUsage io (fd s) HID_REPORT_TYPE_OUTPUT
                         (ucast LEDUsagePage) (ucast Led_Mute) (mutestate s) s
               in if mutestate s = 0 then fprintf_stdout ''--> Unmuted\<newline>'' [] s
                  else fprintf_stdout ''--> Muted\<newline>'' [] s)
            else s)
         else s)
      else if drop_bit 16 (hid ev) = ucast ConsumerUsagePage then
        (if hid ev AND 0xFFFF = ucast Con_Volume_Decr then
           (if ev_value ev \<noteq> 0 then
              fprintf_stdout ''Volume decrement = 0x%x\<newline>'' [X (ev_value ev)] s
            else s)
         else if hid ev AND 0xFFFF = ucast Con_Volume_Incr then
           (if ev_value ev \<noteq> 0 then
              fprintf_stdout ''Volume increment = 0x%x\<newline>'' [X (ev_value ev)] s
            else s)
         else s)
      else s)"

subsection \<open>hit\_key (lines 458--500)\<close>

definition hit_key :: "'d hiddev \<Rightarrow> char \<Rightarrow> 'd state \<Rightarrow> 'd state" where
  "hit_key io key s =
     (if key = CHR ''o'' then
        (let s = s\<lparr>hookstate := lnot (hookstate s)\<rparr>;
             s = (if hookstate s = 1 then
                    (let s = writeUsage io (fd s) HID_REPORT_TYPE_OUTPUT
                               (ucast LEDUsagePage) (ucast Led_Ring) 0 s
                     in writeUsage io (fd s) HID_REPORT_TYPE_OUTPUT
                          (ucast TelephonyUsagePage) (ucast Tel_Ringer) 0 s)
                  else s);
             s = writeUsage io (fd s) HID_REPORT_TYPE_OUTPUT
                   (ucast LEDUsagePage) (ucast Led_Off_Hook) (hookstate s) s
         in if hookstate s = 0 then fprintf_stdout ''<-- Put back Hook\<newline>'' [] s
            else fprintf_stdout ''<-- Lift Hook\<newline>'' [] s)
      else if key = CHR ''m'' then
        (let s = s\<lparr>mutestate := lnot (mutestate s)\<rparr>;
             s = writeUsage io (fd s) HID_REPORT_TYPE_OUTPUT
                   (ucast LEDUsagePage) (ucast Led_Mute) (mutestate s) s
         in if mutestate s = 0 then fprintf_stdout ''<-- Unmute\<newline>'' [] s
            else fprintf_stdout ''<-- Mute\<newline>'' [] s)
      else if key = CHR ''r'' then
        (let s = s\<lparr>ringerstate := lnot (ringerstate s)\<rparr>;
             s = writeUsage io (fd s) HID_REPORT_TYPE_OUTPUT
                   (ucast LEDUsagePage) (ucast Led_Ring) (ringerstate s) s
         in writeUsage io (fd s) HID_REPORT_TYPE_OUTPUT
              (ucast TelephonyUsagePage) (ucast Tel_Ringer) (ringerstate s) s)
      else if key = CHR ''q'' then s\<lparr>run := 0\<rparr>
      else if key = CHR ''?'' then
        (let s = fprintf_stdout ''Usage:\<newline>'' [] s;
             s = fprintf_stdout '' o = offhook tooggle\<newline>'' [] s;
             s = fprintf_stdout '' m = mute tooggle\<newline>'' [] s;
             s = fprintf_stdout '' r = ringer tooggle\<newline>'' [] s;
             s = fprintf_stdout '' q = quit\<newline>'' [] s
         in fprintf_stdout '' ? = this help\<newline>'' [] s)
      else s)"

subsection \<open>event\_loop (lines 376--456)\<close>

text \<open>
  The thread function, one step at a time. A wake-up carries what the system calls of one
  pass of the \<open>while\<close> loop give: the result of \<open>select\<close>, the result of \<open>read\<close>
  and the contents of \<open>ev\<close> after it. The thread is at the loop head, inside the
  \<open>for\<close> loop with the events \<open>ev[i], ev[i+1], ...\<close> still to handle, or has returned.
  The mutex is taken and released around each event, so another thread can run between
  two events of a batch but not inside \<open>process_event\<close>.
\<close>

record wakeup =
  sel :: s32
  rd :: s32
  buf :: "hiddev_event list"

datatype bg_thread = AtLoopHead | InBatch "hiddev_event list" | Returned s32

definition event_loop_wake :: "wakeup \<Rightarrow> 'd state \<Rightarrow> 'd state \<times> bg_thread" where
  "event_loop_wake w s =
     (if run s = 1 then
        (if 0 <s sel w then
           (if rd w <s sizeof_hiddev_event then
              (let s = (if rd w <s 0 then perror ''error reading'' s
                        else fprintf_stderr ''got too short read from device\<newline>'' [] s)
               in (s\<lparr>run := 0\<rparr>, Returned (- 1)))
            else (s, InBatch (take (unat (rd w) div unat sizeof_hiddev_event) (buf w))))
         else (s, AtLoopHead))
      else (s, Returned 0))"

datatype tick = Fg "char option" | BgWake wakeup | BgEvent

fun event_loop_step ::
  "'d hiddev \<Rightarrow> tick \<Rightarrow> bg_thread \<Rightarrow> 'd state \<Rightarrow> 'd state \<times> bg_thread" where
  "event_loop_step io (BgWake w) AtLoopHead s = event_loop_wake w s"
| "event_loop_step io BgEvent (InBatch (e # es)) s = (process_event io e s, InBatch es)"
| "event_loop_step io BgEvent (InBatch []) s = (s, AtLoopHead)"
| "event_loop_step io t bg s = (s, bg)"

section \<open>EXPORTED FUNCTIONS: main (lines 505--584)\<close>

subsection \<open>The system calls of start-up, and doListDev (lines 210--238)\<close>

text \<open>
  The outcomes of the system calls that are not hiddev requests on the chosen device are
  inputs: \<open>open\<close> gives a descriptor (or \<open>-1\<close>) and \<open>errno\<close>; the three probing
  \<open>ioctl\<close>s of \<open>doListDev\<close> give their return code (and the vendor id);
  \<open>pthread_create\<close> and \<open>pthread_join\<close> give their return code.
\<close>

record sys =
  open_probe :: "string \<Rightarrow> s32 \<times> s32"
  probe_devinfo :: "s32 \<Rightarrow> s32 \<times> 16 word"
  probe_name :: "s32 \<Rightarrow> s32"
  probe_version :: "s32 \<Rightarrow> s32"
  open_device :: "string \<Rightarrow> s32 \<times> s32"
  pthread_create :: s32
  pthread_join :: s32

definition doListDev :: "sys \<Rightarrow> string \<Rightarrow> 'd state \<Rightarrow> s32 \<times> 'd state" where
  "doListDev sy path s =
     (case open_probe sy path of
        (f, errno) \<Rightarrow>
          if f \<noteq> - 1 then
            (case probe_devinfo sy f of
               (r, vendor) \<Rightarrow>
                 if r = - 1 then (- 1, perror ''ioctl HIDIOCGDEVINFO'' s)
                 else if probe_name sy f = - 1 then (- 1, perror ''ioctl HIDIOCGNAME'' s)
                 else if probe_version sy f = - 1 then (- 1, perror ''ioctl HIDIOCGVERSION'' s)
                 else ((if (scast vendor :: s32) = ucast JABRA_VID then 1 else 0), s))
          else if errno = ENOENT then (0, s)
          else (- 1, perror ''ioctl HIDIOCGVERSION'' s))"

fun dec :: "nat \<Rightarrow> string" where
  "dec n = (if n < 10 then [char_of (48 + n)] else dec (n div 10) @ [char_of (48 + n mod 10)])"

definition hiddev_name :: "nat \<Rightarrow> string" where
  "hiddev_name i = ''/dev/usb/hiddev'' @ dec i"

function scan :: "sys \<Rightarrow> nat \<Rightarrow> 'd state \<Rightarrow> nat \<times> 'd state" where
  "scan sy i s =
     (if i < 19 then
        (case doListDev sy (hiddev_name i) s of
           (r, s') \<Rightarrow> if r = 1 then (i, s') else scan sy (Suc i) s')
      else (i, s))"
  by pat_completeness auto
termination
  by (relation "measure (\<lambda>(sy, i, s). 19 - i)") auto

subsection \<open>The two loops running together\<close>

text \<open>
  One pass of the foreground loop \<open>while (run == 1)\<close>: \<open>read(0, &c, 1)\<close> gives a
  character or nothing.
\<close>

datatype fg_thread = InLoop | LoopExited

definition main_loop_step ::
  "'d hiddev \<Rightarrow> char option \<Rightarrow> 'd state \<Rightarrow> 'd state \<times> fg_thread" where
  "main_loop_step io c s =
     (if run s = 1 then
        ((case c of Some k \<Rightarrow> hit_key io k s | None \<Rightarrow> s), InLoop)
      else (s, LoopExited))"

text \<open>
  A schedule is the list of steps in the order they happen. \<open>run_until_exit\<close> runs it
  until the foreground loop has exited; \<open>run_until_returned\<close> is the wait inside a
  successful \<open>pthread_join\<close>. Both give \<open>None\<close> when the schedule ends first.
\<close>

fun run_until_exit ::
  "'d hiddev \<Rightarrow> tick list \<Rightarrow> bg_thread \<Rightarrow> 'd state \<Rightarrow> (tick list \<times> bg_thread \<times> 'd state) option" where
  "run_until_exit io [] bg s = None"
| "run_until_exit io (Fg c # ts) bg s =
     (case main_loop_step io c s of
        (s', InLoop) \<Rightarrow> run_until_exit io ts bg s'
      | (s', LoopExited) \<Rightarrow> Some (ts, bg, s'))"
| "run_until_exit io (t # ts) bg s =
     (case event_loop_step io t bg s of (s', bg') \<Rightarrow> run_until_exit io ts bg' s')"

fun run_until_returned ::
  "'d hiddev \<Rightarrow> tick list \<Rightarrow> bg_thread \<Rightarrow> 'd state \<Rightarrow> (s32 \<times> 'd state) option" where
  "run_until_returned io ts (Returned r) s = Some (r, s)"
| "run_until_returned io [] bg s = None"
| "run_until_returned io (t # ts) bg s =
     (case event_loop_step io t bg s of (s', bg') \<Rightarrow> run_until_returned io ts bg' s')"

subsection \<open>main\<close>

definition ioctl_INITREPORT :: "'d hiddev \<Rightarrow> 'd state \<Rightarrow> 'd state" where
  "ioctl_INITREPORT io s =
     s\<lparr>dev := initreport io (dev s) (fd s), ioctls := ioctls s @ [Ioctl (fd s) HIDIOCINITREPORT]\<rparr>"

definition ioctl_GNAME :: "'d hiddev \<Rightarrow> string \<Rightarrow> 'd state \<Rightarrow> string \<times> 'd state" where
  "ioctl_GNAME io name s =
     (case gname io (dev s) (fd s) name of
        (name', d') \<Rightarrow> (name', s\<lparr>dev := d', ioctls := ioctls s @ [Ioctl (fd s) HIDIOCGNAME]\<rparr>))"

definition startup :: "'d \<Rightarrow> 'd state" where
  "startup d = \<lparr>fd = 0, mutestate = 0, hookstate = 0, ringerstate = 0, run = 1,
                dev = d, ioctls = [], console = []\<rparr>"

text \<open>Lines 533--552: the device is initialised and the three states are read from it.\<close>

definition init_device :: "'d hiddev \<Rightarrow> string \<Rightarrow> 'd state \<Rightarrow> 'd state" where
  "init_device io name s =
     (let s = ioctl_INITREPORT io s in
      case ioctl_GNAME io name s of
        (name, s) \<Rightarrow>
          (let s = fprintf_stdout
                     (''HID device name: '' @ [CHR 0x22] @ ''%s'' @ [CHR 0x22] @ ''\<newline>'')
                     [S name] s;
               s = s\<lparr>mutestate := 0, hookstate := 0, ringerstate := 0\<rparr>;
               s = fprintf_stdout ''Reading\<newline>'' [] s;
               s = readUsage io (fd s) HID_REPORT_TYPE_OUTPUT
                     (ucast LEDUsagePage) (ucast Led_Mute) Addr_mutestate s;
               s = fprintf_stdout ''mutestate=%i\<newline>'' [D (mutestate s)] s;
               s = readUsage io (fd s) HID_REPORT_TYPE_OUTPUT
                     (ucast LEDUsagePage) (ucast Led_Off_Hook) Addr_hookstate s;
               s = fprintf_stdout ''hookstate=%i\<newline>'' [D (hookstate s)] s;
               s = readUsage io (fd s) HID_REPORT_TYPE_OUTPUT
                     (ucast LEDUsagePage) (ucast Led_Ring) Addr_ringerstate s
           in fprintf_stdout ''ringerstate=%i\<newline>'' [D (ringerstate s)] s))"

text \<open>
  Lines 565--583, once the thread has been created: the help text, the foreground loop,
  the join and the return. \<open>pthread_join\<close> is called with \<open>NULL\<close> for the thread's
  return value, and \<open>event_loop\<close> never uses its argument \<open>&retval\<close>.
\<close>

definition run_and_join ::
  "'d hiddev \<Rightarrow> sys \<Rightarrow> tick list \<Rightarrow> s32 \<Rightarrow> 'd state \<Rightarrow> (s32 \<times> 'd state) option" where
  "run_and_join io sy ticks retval s =
     (case run_until_exit io ticks AtLoopHead (hit_key io CHR ''?'' s) of
        None \<Rightarrow> None
      | Some (ts, bg, s) \<Rightarrow>
          if pthread_join sy \<noteq> 0 then
            Some (- 1, fprintf_stderr ''Error joining thread\<newline>'' [] s)
          else
            (case run_until_returned io ts bg s of
               None \<Rightarrow> None
             | Some (r, s) \<Rightarrow> Some (retval, s)))"

definition main :: "'d hiddev \<Rightarrow> sys \<Rightarrow> tick list \<Rightarrow> 'd \<Rightarrow> (s32 \<times> 'd state) option" where
  "main io sy ticks d =
     (let retval = 0 in
      case scan sy 0 (startup d) of
        (i, s) \<Rightarrow>
          if i = 19 then Some (- 1, fprintf_stderr ''No Jabra device found\<newline>'' [] s)
          else
            (let name = hiddev_name i;
                 s = fprintf_stdout ''Using device %s\<newline>'' [S name] s
             in case open_device sy name of
                  (f, errno) \<Rightarrow>
                    (let s = s\<lparr>fd := f\<rparr> in
                     if f <s 0 \<and> errno = EACCES then
                       Some (- 1, fprintf_stderr ''No permission, try this as root.\<newline>'' [] s)
                     else
                       (let s = init_device io name s in
                        if pthread_create sy \<noteq> 0 then
                          Some (- 1, fprintf_stderr ''Error creating thread\<newline>'' [] s)
                        else run_and_join io sy ticks retval s))))"

declare dec.simps [simp del]
declare scan.simps [simp del]

section \<open>Vocabulary of the properties\<close>

subsection \<open>What a call issued to the device\<close>

definition issued :: "'d state \<Rightarrow> 'd state \<Rightarrow> ioctl_call list" where
  "issued s s' = drop (length (ioctls s)) (ioctls s')"

fun is_stage :: "ioctl_call \<Rightarrow> bool" where
  "is_stage (Ioctl f (HIDIOCSUSAGE u)) = True"
| "is_stage c = False"

fun is_commit :: "ioctl_call \<Rightarrow> bool" where
  "is_commit (Ioctl f (HIDIOCSREPORT r)) = True"
| "is_commit c = False"

text \<open>The usage codes and values handed to \<open>HIDIOCSUSAGE\<close>, in the order of the history.\<close>

fun staged :: "ioctl_call list \<Rightarrow> (u32 \<times> s32) list" where
  "staged [] = []"
| "staged (Ioctl f (HIDIOCSUSAGE u) # cs) = (uref_usage_code u, uref_value u) # staged cs"
| "staged (c # cs) = staged cs"

subsection \<open>Sequences of hook operations\<close>

text \<open>
  A hardware hook-switch event is the event record with usage page Telephony and usage
  \<open>Tel_Hook_Switch\<close>; a user hook toggle is the key \<open>o\<close>. Each is handled with the mutex
  held, so a serialised run is a list of them handled one after the other.
\<close>

datatype hook_op = HwHook s32 | UserToggle

definition hook_event :: "s32 \<Rightarrow> hiddev_event" where
  "hook_event v = \<lparr>hid = push_bit 16 (ucast TelephonyUsagePage) OR ucast Tel_Hook_Switch,
                    ev_value = v\<rparr>"

definition mute_event :: "s32 \<Rightarrow> hiddev_event" where
  "mute_event v = \<lparr>hid = push_bit 16 (ucast TelephonyUsagePage) OR ucast Tel_Phone_Mute,
                    ev_value = v\<rparr>"

fun apply_hook_op :: "'d hiddev \<Rightarrow> hook_op \<Rightarrow> 'd state \<Rightarrow> 'd state" where
  "apply_hook_op io (HwHook v) s = process_event io (hook_event v) s"
| "apply_hook_op io UserToggle s = hit_key io CHR ''o'' s"

fun run_hook_ops :: "'d hiddev \<Rightarrow> hook_op list \<Rightarrow> 'd state \<Rightarrow> 'd state" where
  "run_hook_ops io [] s = s"
| "run_hook_ops io (x # xs) s = run_hook_ops io xs (apply_hook_op io x s)"

text \<open>
  The specification's reading of the same run. The hook field of the call state is a
  boolean; of the stored \<open>int\<close> it is the truth value, written as the bit
  \<open>truth_bit\<close> (0 for 0, 1 for anything else). Every operation contributes one bit that
  is XORed into the hook bit, in arrival order. A user toggle contributes 1; a hardware
  event reporting \<open>v\<close> contributes the difference between the hook bit and the bit of
  \<open>v\<close> (0 when the report repeats the stored truth value).
\<close>

definition is_bool :: "s32 \<Rightarrow> bool" where
  "is_bool x = (x = 0 \<or> x = 1)"

definition truth_bit :: "s32 \<Rightarrow> s32" where
  "truth_bit x = (if x = 0 then 0 else 1)"

fun hook_effect :: "s32 \<Rightarrow> hook_op \<Rightarrow> s32" where
  "hook_effect b UserToggle = 1"
| "hook_effect b (HwHook v) = b XOR truth_bit v"

fun xor_hook_effects :: "s32 \<Rightarrow> hook_op list \<Rightarrow> s32" where
  "xor_hook_effects h [] = h"
| "xor_hook_effects h (x # xs) = xor_hook_effects (h XOR hook_effect h x) xs"

fun hw_values_bool :: "hook_op list \<Rightarrow> bool" where
  "hw_values_bool [] = True"
| "hw_values_bool (HwHook v # xs) = (is_bool v \<and> hw_values_bool xs)"
| "hw_values_bool (UserToggle # xs) = hw_values_bool xs"

subsection \<open>Writes of an output usage\<close>

text \<open>
  Every write the two handlers make is \<open>writeUsage\<close> on the global descriptor with report
  type \<open>HID_REPORT_TYPE_OUTPUT\<close>. The ring cancel is the pair of writes that sets the ring
  LED and then the ringer tone to 0.
\<close>

definition write_output :: "'d hiddev \<Rightarrow> u16 \<Rightarrow> u16 \<Rightarrow> s32 \<Rightarrow> 'd state \<Rightarrow> 'd state" where
  "write_output io page code v s =
     writeUsage io (fd s) HID_REPORT_TYPE_OUTPUT (ucast page) (ucast code) v s"

definition ring_cancel :: "'d hiddev \<Rightarrow> 'd state \<Rightarrow> 'd state" where
  "ring_cancel io s =
     write_output io TelephonyUsagePage Tel_Ringer 0 (write_output io LEDUsagePage Led_Ring 0 s)"

subsection \<open>A small device for concrete runs\<close>

text \<open>
  A driver whose state is the list of usages it knows with their values. Every field has
  the logical range \<open>[0, 1]\<close>. \<open>HIDIOCSUSAGE\<close> returns \<open>rc\<close> and, when \<open>rc\<close> is
  not negative, stores the value.
\<close>

definition zero_uref :: hiddev_usage_ref where
  "zero_uref = \<lparr>uref_report_type = 0, uref_report_id = 0, uref_field_index = 0,
                 uref_usage_index = 0, uref_usage_code = 0, uref_value = 0\<rparr>"

definition zero_finfo :: hiddev_field_info where
  "zero_finfo = \<lparr>finfo_report_type = 0, finfo_report_id = 0, finfo_field_index = 0,
                  maxusage = 0, flags = 0, physical = 0, logical = 0, application = 0,
                  logical_minimum = 0, logical_maximum = 0, physical_minimum = 0,
                  physical_maximum = 0, unit_exponent = 0, finfo_unit = 0\<rparr>"

definition zero_rinfo :: hiddev_report_info where
  "zero_rinfo = \<lparr>rinfo_report_type = 0, rinfo_report_id = 0, num_fields = 0\<rparr>"

type_synonym sim_dev = "(u32 \<times> s32) list"

definition sim_hiddev :: "s32 \<Rightarrow> sim_dev hiddev" where
  "sim_hiddev rc =
     \<lparr>gusage = (\<lambda>d f u.
         case map_of d (uref_usage_code u) of
           None \<Rightarrow> (- 1, u, d)
         | Some v \<Rightarrow> (0, u\<lparr>uref_report_id := 1, uref_field_index := 0,
                            uref_usage_index := 0, uref_value := v\<rparr>, d)),
      gfieldinfo = (\<lambda>d f fi. (0, fi\<lparr>maxusage := 1, logical_minimum := 0, logical_maximum := 1\<rparr>, d)),
      susage = (\<lambda>d f u.
         if rc <s 0 then (rc, d)
         else (rc, (uref_usage_code u, uref_value u) # filter (\<lambda>kv. fst kv \<noteq> uref_usage_code u) d)),
      sreport = (\<lambda>d f r. (0, d)),
      initreport = (\<lambda>d f. d),
      gname = (\<lambda>d f n. (''Jabra'', d)),
      auto_uref = (\<lambda>d. zero_uref),
      auto_finfo = (\<lambda>d. zero_finfo),
      auto_rinfo = (\<lambda>d. zero_rinfo)\<rparr>"

definition sim_leds :: sim_dev where
  "sim_leds = [(0x00080009, 0), (0x00080017, 0), (0x00080018, 0), (0x000B009E, 0)]"

definition sim_state :: "sim_dev state" where
  "sim_state = \<lparr>fd = 3, mutestate = 0, hookstate = 0, ringerstate = 0, run = 1,
                dev = sim_leds, ioctls = [], console = []\<rparr>"

definition sim_sys :: sys where
  "sim_sys =
     \<lparr>open_probe = (\<lambda>p. if p = ''/dev/usb/hiddev0'' then (3, 0) else (- 1, ENOENT)),
      probe_devinfo = (\<lambda>f. (0, 0x0B0E)),
      probe_name = (\<lambda>f. 0),
      probe_version = (\<lambda>f. 0),
      open_device = (\<lambda>p. (4, 0)),
      pthread_create = 0,
      pthread_join = 0\<rparr>"

section \<open>Basic facts\<close>

lemmas io_defs = ioctl_GUSAGE_def ioctl_GFIELDINFO_def ioctl_SUSAGE_def ioctl_SREPORT_def
  perror_def fprintf_stdout_def fprintf_stderr_def

lemmas const_defs = HID_REPORT_TYPE_OUTPUT_def HID_REPORT_ID_UNKNOWN_def
  LEDUsagePage_def TelephonyUsagePage_def ConsumerUsagePage_def ButtonUsagePage_def
  Led_Mute_def Led_Off_Hook_def Led_Ring_def Tel_Ringer_def Tel_Hook_Switch_def
  Tel_Phone_Mute_def Con_Volume_Incr_def Con_Volume_Decr_def

lemmas sim_defs = sim_hiddev_def sim_state_def sim_leds_def find_uref_def field_of_def
  report_of_def zero_uref_def zero_finfo_def zero_rinfo_def const_defs word_sless_alt

lemma writeUsage_keeps:
  "fd (writeUsage io f rt page code v s) = fd s"
  "mutestate (writeUsage io f rt page code v s) = mutestate s"
  "hookstate (writeUsage io f rt page code v s) = hookstate s"
  "ringerstate (writeUsage io f rt page code v s) = ringerstate s"
  "run (writeUsage io f rt page code v s) = run s"
  by (simp_all add: writeUsage_def io_defs Let_def case_prod_beta)

lemma load_store: "load q (store p w t) = (if q = p then w else load q t)"
  by (cases q; cases p) simp_all

lemma load_other:
  "load q (t\<lparr>dev := a\<rparr>) = load q t"
  "load q (t\<lparr>ioctls := b\<rparr>) = load q t"
  "load q (t\<lparr>console := c\<rparr>) = load q t"
  by (cases q, simp_all)+

lemma store_other:
  "dev (store p w t) = dev t"
  "ioctls (store p w t) = ioctls t"
  "console (store p w t) = console t"
  by (cases p, simp_all)+

lemma not_sless_zero: "\<not> (0::s32) <s 0"
  by (simp add: word_sless_alt)

section \<open>The usage transactor\<close>

text \<open>
  Claim C1. When \<open>writeUsage\<close> has resolved the usage and fetched its field, and the
  proposed value is strictly below \<open>logical_minimum\<close> or strictly above
  \<open>logical_maximum\<close>, the call issues the resolution and the field fetch and nothing
  else: no \<open>HIDIOCSUSAGE\<close> and no \<open>HIDIOCSREPORT\<close>. It prints the range diagnostic with
  the usage page name, the value and both bounds, and \<open>mutestate\<close>, \<open>hookstate\<close> and
  \<open>ringerstate\<close> are as before.
\<close>

theorem writeUsage_range_error:
  assumes res: "gusage io (dev s) f (find_uref io (dev s) rt page code) = (r1, uref, d1)"
      and ok1: "\<not> r1 <s 0"
      and fld: "gfieldinfo io d1 f (field_of io (dev s) uref) = (r2, finfo, d2)"
      and ok2: "\<not> r2 <s 0"
      and out: "v <s logical_minimum finfo \<or> logical_maximum finfo <s v"
  shows "issued s (writeUsage io f rt page code v s) =
           [Ioctl f (HIDIOCGUSAGE (find_uref io (dev s) rt page code)),
            Ioctl f (HIDIOCGFIELDINFO (field_of io (dev s) uref))]
       \<and> filter is_stage (issued s (writeUsage io f rt page code v s)) = []
       \<and> filter is_commit (issued s (writeUsage io f rt page code v s)) = []
       \<and> console (writeUsage io f rt page code v s) =
           console s @ [Stdout range_fmt [S (usagePageName (uref_usage_code uref)), D v,
                                          D (logical_minimum finfo), D (logical_maximum finfo)]]
       \<and> mutestate (writeUsage io f rt page code v s) = mutestate s
       \<and> hookstate (writeUsage io f rt page code v s) = hookstate s
       \<and> ringerstate (writeUsage io f rt page code v s) = ringerstate s"
proof -
  have w: "writeUsage io f rt page code v s =
      s\<lparr>dev := d2,
        ioctls := ioctls s @ [Ioctl f (HIDIOCGUSAGE (find_uref io (dev s) rt page code)),
                              Ioctl f (HIDIOCGFIELDINFO (field_of io (dev s) uref))],
        console := console s @ [Stdout range_fmt [S (usagePageName (uref_usage_code uref)), D v,
                                          D (logical_minimum finfo), D (logical_maximum finfo)]]\<rparr>"
    using res ok1 fld ok2 out by (simp add: writeUsage_def io_defs Let_def)
  show ?thesis unfolding w by (simp add: issued_def)
qed

text \<open>
  The scenario of the specification: value 5 on the off-hook LED, whose field has the
  range \<open>[0, 1]\<close>.
\<close>

theorem writeUsage_range_error_witness:
  "issued sim_state (writeUsage (sim_hiddev 0) 3 HID_REPORT_TYPE_OUTPUT (ucast LEDUsagePage)
       (ucast Led_Off_Hook) 5 sim_state) =
     [Ioctl 3 (HIDIOCGUSAGE \<lparr>uref_report_type = 2, uref_report_id = 0xffffffff,
                 uref_field_index = 0, uref_usage_index = 0, uref_usage_code = 0x00080017,
                 uref_value = 0\<rparr>),
      Ioctl 3 (HIDIOCGFIELDINFO (zero_finfo\<lparr>finfo_report_type := 2, finfo_report_id := 1\<rparr>))]
   \<and> console (writeUsage (sim_hiddev 0) 3 HID_REPORT_TYPE_OUTPUT (ucast LEDUsagePage)
       (ucast Led_Off_Hook) 5 sim_state) = [Stdout range_fmt [S ''LEDUsagePage'', D 5, D 0, D 1]]
   \<and> hookstate (writeUsage (sim_hiddev 0) 3 HID_REPORT_TYPE_OUTPUT (ucast LEDUsagePage)
       (ucast Led_Off_Hook) 5 sim_state) = 0"
proof -
  let ?u = "\<lparr>uref_report_type = 2, uref_report_id = 1, uref_field_index = 0,
             uref_usage_index = 0, uref_usage_code = 0x00080017, uref_value = 0\<rparr>"
  let ?fi = "zero_finfo\<lparr>finfo_report_type := 2, finfo_report_id := 1, maxusage := 1,
                         logical_minimum := 0, logical_maximum := 1\<rparr>"
  have a: "gusage (sim_hiddev 0) (dev sim_state) 3
             (find_uref (sim_hiddev 0) (dev sim_state) HID_REPORT_TYPE_OUTPUT
                (ucast LEDUsagePage) (ucast Led_Off_Hook)) = (0, ?u, sim_leds)"
    by (simp add: sim_defs)
  have b: "gfieldinfo (sim_hiddev 0) sim_leds 3 (field_of (sim_hiddev 0) (dev sim_state) ?u) =
             (0, ?fi, sim_leds)"
    by (simp add: sim_defs)
  have c: "(5::s32) <s logical_minimum ?fi \<or> logical_maximum ?fi <s 5"
    by (simp add: sim_defs)
  from writeUsage_range_error [OF a not_sless_zero b not_sless_zero c] show ?thesis
    by (simp add: sim_defs usagePageName_def)
qed

text \<open>
  Claim C2, as the code has it. When the resolution and the field fetch succeed and the
  value lies within \<open>[logical_minimum, logical_maximum]\<close>, \<open>writeUsage\<close> issues one
  resolution with the unknown report id, one field fetch and one value stage, in that
  order, each afresh in this call; the report commit follows, once, when the value stage
  succeeded, and is not issued when the value stage failed.
\<close>

theorem writeUsage_in_range:
  assumes res: "gusage io (dev s) f (find_uref io (dev s) rt page code) = (r1, uref, d1)"
      and ok1: "\<not> r1 <s 0"
      and fld: "gfieldinfo io d1 f (field_of io (dev s) uref) = (r2, finfo, d2)"
      and ok2: "\<not> r2 <s 0"
      and inr: "\<not> v <s logical_minimum finfo" "\<not> logical_maximum finfo <s v"
      and stg: "susage io d2 f (uref\<lparr>uref_value := v\<rparr>) = (r3, d3)"
  shows "uref_report_id (find_uref io (dev s) rt page code) = HID_REPORT_ID_UNKNOWN
       \<and> (\<not> r3 <s 0 \<longrightarrow>
            issued s (writeUsage io f rt page code v s) =
              [Ioctl f (HIDIOCGUSAGE (find_uref io (dev s) rt page code)),
               Ioctl f (HIDIOCGFIELDINFO (field_of io (dev s) uref)),
               Ioctl f (HIDIOCSUSAGE (uref\<lparr>uref_value := v\<rparr>)),
               Ioctl f (HIDIOCSREPORT (report_of io (dev s) (uref\<lparr>uref_value := v\<rparr>)))])
       \<and> (r3 <s 0 \<longrightarrow>
            issued s (writeUsage io f rt page code v s) =
              [Ioctl f (HIDIOCGUSAGE (find_uref io (dev s) rt page code)),
               Ioctl f (HIDIOCGFIELDINFO (field_of io (dev s) uref)),
               Ioctl f (HIDIOCSUSAGE (uref\<lparr>uref_value := v\<rparr>))])"
  using res ok1 fld ok2 inr stg
  by (simp add: writeUsage_def io_defs Let_def issued_def find_uref_def case_prod_beta)

theorem writeUsage_in_range_witness:
  "issued sim_state (writeUsage (sim_hiddev 0) 3 HID_REPORT_TYPE_OUTPUT (ucast LEDUsagePage)
       (ucast Led_Off_Hook) 1 sim_state) =
     [Ioctl 3 (HIDIOCGUSAGE \<lparr>uref_report_type = 2, uref_report_id = 0xffffffff,
                 uref_field_index = 0, uref_usage_index = 0, uref_usage_code = 0x00080017,
                 uref_value = 0\<rparr>),
      Ioctl 3 (HIDIOCGFIELDINFO (zero_finfo\<lparr>finfo_report_type := 2, finfo_report_id := 1\<rparr>)),
      Ioctl 3 (HIDIOCSUSAGE \<lparr>uref_report_type = 2, uref_report_id = 1,
                 uref_field_index = 0, uref_usage_index = 0, uref_usage_code = 0x00080017,
                 uref_value = 1\<rparr>),
      Ioctl 3 (HIDIOCSREPORT \<lparr>rinfo_report_type = 2, rinfo_report_id = 1, num_fields = 0\<rparr>)]"
proof -
  let ?u = "\<lparr>uref_report_type = 2, uref_report_id = 1, uref_field_index = 0,
             uref_usage_index = 0, uref_usage_code = 0x00080017, uref_value = 0\<rparr>"
  let ?fi = "zero_finfo\<lparr>finfo_report_type := 2, finfo_report_id := 1, maxusage := 1,
                         logical_minimum := 0, logical_maximum := 1\<rparr>"
  have a: "gusage (sim_hiddev 0) (dev sim_state) 3
             (find_uref (sim_hiddev 0) (dev sim_state) HID_REPORT_TYPE_OUTPUT
                (ucast LEDUsagePage) (ucast Led_Off_Hook)) = (0, ?u, sim_leds)"
    by (simp add: sim_defs)
  have b: "gfieldinfo (sim_hiddev 0) sim_leds 3 (field_of (sim_hiddev 0) (dev sim_state) ?u) =
             (0, ?fi, sim_leds)"
    by (simp add: sim_defs)
  have c: "\<not> (1::s32) <s logical_minimum ?fi" "\<not> logical_maximum ?fi <s (1::s32)"
    by (simp_all add: sim_defs)
  have d: "susage (sim_hiddev 0) sim_leds 3 (?u\<lparr>uref_value := 1\<rparr>) =
             (0, (0x00080017, 1) # filter (\<lambda>kv. fst kv \<noteq> 0x00080017) sim_leds)"
    by (simp add: sim_defs)
  from writeUsage_in_range [OF a not_sless_zero b not_sless_zero c d] show ?thesis
    by (simp add: sim_defs)
qed

text \<open>
  The claim as written promises the commit for every in-range write. On a device that
  resolves the off-hook LED, reports the range \<open>[0, 1]\<close> and rejects \<open>HIDIOCSUSAGE\<close>,
  the in-range value 1 is staged and no commit is issued.
\<close>

theorem writeUsage_commit_counterexample:
  "logical_minimum (fst (snd (gfieldinfo (sim_hiddev (- 1)) sim_leds 3
       (zero_finfo\<lparr>finfo_report_type := 2, finfo_report_id := 1\<rparr>)))) = 0
   \<and> logical_maximum (fst (snd (gfieldinfo (sim_hiddev (- 1)) sim_leds 3
       (zero_finfo\<lparr>finfo_report_type := 2, finfo_report_id := 1\<rparr>)))) = 1
   \<and> \<not> (1::s32) <s 0 \<and> \<not> (1::s32) <s 1
   \<and> issued sim_state (writeUsage (sim_hiddev (- 1)) 3 HID_REPORT_TYPE_OUTPUT
         (ucast LEDUsagePage) (ucast Led_Off_Hook) 1 sim_state) =
       [Ioctl 3 (HIDIOCGUSAGE \<lparr>uref_report_type = 2, uref_report_id = 0xffffffff,
                   uref_field_index = 0, uref_usage_index = 0, uref_usage_code = 0x00080017,
                   uref_value = 0\<rparr>),
        Ioctl 3 (HIDIOCGFIELDINFO (zero_finfo\<lparr>finfo_report_type := 2, finfo_report_id := 1\<rparr>)),
        Ioctl 3 (HIDIOCSUSAGE \<lparr>uref_report_type = 2, uref_report_id = 1,
                   uref_field_index = 0, uref_usage_index = 0, uref_usage_code = 0x00080017,
                   uref_value = 1\<rparr>)]
   \<and> filter is_commit (issued sim_state (writeUsage (sim_hiddev (- 1)) 3 HID_REPORT_TYPE_OUTPUT
         (ucast LEDUsagePage) (ucast Led_Off_Hook) 1 sim_state)) = []"
  by (simp add: writeUsage_def io_defs Let_def issued_def sim_defs)

text \<open>
  Claim C10. \<open>writeUsage\<close> leaves \<open>mutestate\<close>, \<open>hookstate\<close>, \<open>ringerstate\<close> and
  \<open>run\<close> as they were, whatever the driver answers. \<open>readUsage\<close> leaves every
  \<open>int\<close> object other than the one its out-parameter points to as it was; the object
  pointed to receives the value read when the resolution, the field fetch and the value
  read have all succeeded, and keeps its previous value otherwise.
\<close>

theorem usage_calls_frame:
  assumes g1: "gusage io (dev s) f (find_uref io (dev s) rt page code) = (r1, u1, d1)"
      and g2: "gfieldinfo io d1 f (field_of io (dev s) u1) = (r2, fi, d2)"
      and g3: "gusage io d2 f u1 = (r3, u3, d3)"
  shows "mutestate (writeUsage io f rt page code v s) = mutestate s
       \<and> hookstate (writeUsage io f rt page code v s) = hookstate s
       \<and> ringerstate (writeUsage io f rt page code v s) = ringerstate s
       \<and> run (writeUsage io f rt page code v s) = run s
       \<and> (\<forall>q. q \<noteq> p \<longrightarrow> load q (readUsage io f rt page code p s) = load q s)
       \<and> load p (readUsage io f rt page code p s) =
           (if r1 <s 0 \<or> r2 <s 0 \<or> r3 <s 0 then load p s else uref_value u3)"
  using g1 g2 g3
  by (simp add: writeUsage_keeps readUsage_def io_defs Let_def load_store load_other
      store_other case_prod_beta)

theorem usage_calls_frame_witness:
  "load Addr_mutestate (readUsage (sim_hiddev 0) 3 HID_REPORT_TYPE_OUTPUT (ucast LEDUsagePage)
      (ucast Led_Mute) Addr_mutestate (sim_state\<lparr>dev := [(0x00080009, 1)]\<rparr>)) = 1
   \<and> Addr_hookstate \<noteq> Addr_mutestate
   \<and> load Addr_hookstate (readUsage (sim_hiddev 0) 3 HID_REPORT_TYPE_OUTPUT (ucast LEDUsagePage)
      (ucast Led_Mute) Addr_mutestate (sim_state\<lparr>dev := [(0x00080009, 1)]\<rparr>)) = 0
   \<and> run (writeUsage (sim_hiddev 0) 3 HID_REPORT_TYPE_OUTPUT (ucast LEDUsagePage)
      (ucast Led_Mute) 1 (sim_state\<lparr>dev := [(0x00080009, 1)]\<rparr>)) = 1"
proof -
  let ?s = "sim_state\<lparr>dev := [(0x00080009, 1)]\<rparr>"
  let ?u = "\<lparr>uref_report_type = 2, uref_report_id = 1, uref_field_index = 0,
             uref_usage_index = 0, uref_usage_code = 0x00080009, uref_value = 1\<rparr>"
  let ?fi = "zero_finfo\<lparr>finfo_report_type := 2, finfo_report_id := 1, maxusage := 1,
                         logical_minimum := 0, logical_maximum := 1\<rparr>"
  have a: "gusage (sim_hiddev 0) (dev ?s) 3
             (find_uref (sim_hiddev 0) (dev ?s) HID_REPORT_TYPE_OUTPUT
                (ucast LEDUsagePage) (ucast Led_Mute)) = (0, ?u, [(0x00080009, 1)])"
    by (simp add: sim_defs)
  have b: "gfieldinfo (sim_hiddev 0) [(0x00080009, 1)] 3 (field_of (sim_hiddev 0) (dev ?s) ?u) =
             (0, ?fi, [(0x00080009, 1)])"
    by (simp add: sim_defs)
  have c: "gusage (sim_hiddev 0) [(0x00080009, 1)] 3 ?u = (0, ?u, [(0x00080009, 1)])"
    by (simp add: sim_defs)
  note f = usage_calls_frame [OF a b c, of 1 Addr_mutestate]
  have n: "Addr_hookstate \<noteq> Addr_mutestate" by simp
  from f n have h: "load Addr_hookstate (readUsage (sim_hiddev 0) 3 HID_REPORT_TYPE_OUTPUT
      (ucast LEDUsagePage) (ucast Led_Mute) Addr_mutestate ?s) = load Addr_hookstate ?s"
    by blast
  from f h show ?thesis
    by (simp add: sim_state_def word_sless_alt)
qed

section \<open>The event reconciler and the command dispatcher\<close>

lemma hook_event_decode:
  "drop_bit 16 (hid (hook_event v)) = ucast TelephonyUsagePage"
  "hid (hook_event v) AND 0xFFFF = ucast Tel_Hook_Switch"
  "ev_value (hook_event v) = v"
  by (simp_all add: hook_event_def const_defs)

lemma mute_event_decode:
  "drop_bit 16 (hid (mute_event v)) = ucast TelephonyUsagePage"
  "(ucast Tel_Phone_Mute :: u32) \<noteq> ucast Tel_Hook_Switch"
  "hid (mute_event v) AND 0xFFFF = ucast Tel_Phone_Mute"
  "ev_value (mute_event v) = v"
  by (simp_all add: mute_event_def const_defs)

lemma write_output_keeps:
  "fd (write_output io page code v s) = fd s"
  "mutestate (write_output io page code v s) = mutestate s"
  "hookstate (write_output io page code v s) = hookstate s"
  "ringerstate (write_output io page code v s) = ringerstate s"
  "run (write_output io page code v s) = run s"
  by (simp_all add: write_output_def writeUsage_keeps)

lemma ring_cancel_keeps:
  "fd (ring_cancel io s) = fd s"
  "mutestate (ring_cancel io s) = mutestate s"
  "hookstate (ring_cancel io s) = hookstate s"
  "ringerstate (ring_cancel io s) = ringerstate s"
  "run (ring_cancel io s) = run s"
  by (simp_all add: ring_cancel_def write_output_keeps)

lemmas eval_defs = write_output_def ring_cancel_def writeUsage_def io_defs Let_def sim_defs

text \<open>
  Claim C3. A hook-switch event whose value differs from the stored hook state, arriving
  while the stored state is 0, makes the reconciler write the ring LED to 0, then the
  ringer tone to 0, then the off-hook LED to the event value, and store the event value
  as the hook state. When the stored state is not 0 (off-hook), the two ring-cancel
  writes are skipped: only the off-hook LED write and the state update happen.
\<close>

theorem hook_event_reconciled:
  assumes diff: "hookstate s \<noteq> v"
  shows "(hookstate s = 0 \<longrightarrow>
            process_event io (hook_event v) s =
              fprintf_stdout ''--> Hook lifted\<newline>'' []
                ((write_output io LEDUsagePage Led_Off_Hook v
                   (write_output io TelephonyUsagePage Tel_Ringer 0
                     (write_output io LEDUsagePage Led_Ring 0 s)))\<lparr>hookstate := v\<rparr>))
       \<and> (hookstate s \<noteq> 0 \<longrightarrow>
            process_event io (hook_event v) s =
              fprintf_stdout (if v = 0 then ''--> Hook in place\<newline>'' else ''--> Hook lifted\<newline>'') []
                ((write_output io LEDUsagePage Led_Off_Hook v s)\<lparr>hookstate := v\<rparr>))
       \<and> hookstate (process_event io (hook_event v) s) = v"
  using diff
  by (auto simp add: process_event_def hook_event_decode Let_def write_output_def
      writeUsage_keeps fprintf_stdout_def)

text \<open>
  The scenario of the specification: the device reports the hook switch at 1 while the
  stored hook state is 0.
\<close>

theorem hook_event_reconciled_witness:
  "hookstate sim_state \<noteq> 1 \<and> hookstate sim_state = 0
   \<and> staged (ioctls (process_event (sim_hiddev 0) (hook_event 1) sim_state)) =
       [(0x00080018, 0), (0x000B009E, 0), (0x00080017, 1)]
   \<and> hookstate (process_event (sim_hiddev 0) (hook_event 1) sim_state) = 1"
proof -
  have a: "hookstate sim_state \<noteq> 1" and b: "hookstate sim_state = 0"
    by (simp_all add: sim_state_def)
  from hook_event_reconciled [OF a, of "sim_hiddev 0"] b
  have e: "process_event (sim_hiddev 0) (hook_event 1) sim_state =
             fprintf_stdout ''--> Hook lifted\<newline>'' []
               ((write_output (sim_hiddev 0) LEDUsagePage Led_Off_Hook 1
                  (write_output (sim_hiddev 0) TelephonyUsagePage Tel_Ringer 0
                    (write_output (sim_hiddev 0) LEDUsagePage Led_Ring 0 sim_state)))\<lparr>hookstate := 1\<rparr>)"
    by blast
  show ?thesis unfolding e by (simp add: eval_defs)
qed

text \<open>
  Claim C4. A mute-button event with value 1 replaces \<open>mutestate\<close> by its negation and
  writes the mute LED with the new value. An event with any other value, 0 included,
  leaves the whole state as it is: nothing is stored and no \<open>ioctl\<close> is issued.
\<close>

theorem mute_event_reconciled:
  "process_event io (mute_event 1) s =
     fprintf_stdout (if lnot (mutestate s) = 0 then ''--> Unmuted\<newline>'' else ''--> Muted\<newline>'') []
       (write_output io LEDUsagePage Led_Mute (lnot (mutestate s))
          (s\<lparr>mutestate := lnot (mutestate s)\<rparr>))
   \<and> mutestate (process_event io (mute_event 1) s) = lnot (mutestate s)
   \<and> (v \<noteq> 1 \<longrightarrow> process_event io (mute_event v) s = s)"
  by (simp add: process_event_def mute_event_decode Let_def write_output_def
      writeUsage_keeps fprintf_stdout_def)

theorem mute_event_reconciled_witness:
  "(0::s32) \<noteq> 1
   \<and> process_event (sim_hiddev 0) (mute_event 0) sim_state = sim_state
   \<and> mutestate (process_event (sim_hiddev 0) (mute_event 1) sim_state) = 1
   \<and> staged (ioctls (process_event (sim_hiddev 0) (mute_event 1) sim_state)) = [(0x00080009, 1)]"
proof -
  note t = mute_event_reconciled [of "sim_hiddev 0" sim_state 0]
  have l: "lnot (mutestate sim_state) = 1" by (simp add: lnot_def sim_state_def)
  from t have e: "process_event (sim_hiddev 0) (mute_event 1) sim_state =
      fprintf_stdout ''--> Muted\<newline>'' []
       (write_output (sim_hiddev 0) LEDUsagePage Led_Mute 1 (sim_state\<lparr>mutestate := 1\<rparr>))"
    by (simp add: l)
  from t have z: "process_event (sim_hiddev 0) (mute_event 0) sim_state = sim_state"
    by simp
  show ?thesis unfolding e z by (simp add: eval_defs)
qed

text \<open>
  Claim C7. The key \<open>r\<close> negates \<open>ringerstate\<close> whatever it was and writes the ring LED
  and then the ringer tone, both with the new \<open>ringerstate\<close>. Both hook paths (the key
  \<open>o\<close> and the hook-switch event) touch that pair only through the ring cancel, which
  writes 0 to both, and only when the stored hook state was 0 and changes.
\<close>

theorem ringer_toggle_pair:
  "hit_key io CHR ''r'' s =
     write_output io TelephonyUsagePage Tel_Ringer (lnot (ringerstate s))
       (write_output io LEDUsagePage Led_Ring (lnot (ringerstate s))
          (s\<lparr>ringerstate := lnot (ringerstate s)\<rparr>))
   \<and> ringerstate (hit_key io CHR ''r'' s) = lnot (ringerstate s)
   \<and> hit_key io CHR ''o'' s =
       (if hookstate s = 0 then
          fprintf_stdout ''<-- Lift Hook\<newline>'' []
            (write_output io LEDUsagePage Led_Off_Hook 1 (ring_cancel io (s\<lparr>hookstate := 1\<rparr>)))
        else
          fprintf_stdout ''<-- Put back Hook\<newline>'' []
            (write_output io LEDUsagePage Led_Off_Hook 0 (s\<lparr>hookstate := 0\<rparr>)))
   \<and> process_event io (hook_event v) s =
       (if hookstate s = v then s
        else if hookstate s = 0 then
          fprintf_stdout ''--> Hook lifted\<newline>'' []
            ((write_output io LEDUsagePage Led_Off_Hook v (ring_cancel io s))\<lparr>hookstate := v\<rparr>)
        else
          fprintf_stdout (if v = 0 then ''--> Hook in place\<newline>'' else ''--> Hook lifted\<newline>'') []
            ((write_output io LEDUsagePage Led_Off_Hook v s)\<lparr>hookstate := v\<rparr>))"
  by (auto simp add: hit_key_def process_event_def hook_event_decode Let_def write_output_def
      ring_cancel_def writeUsage_keeps fprintf_stdout_def lnot_def)

theorem ringer_toggle_pair_witness:
  "ringerstate (hit_key (sim_hiddev 0) CHR ''r'' sim_state) = 1
   \<and> staged (ioctls (hit_key (sim_hiddev 0) CHR ''r'' sim_state)) =
       [(0x00080018, 1), (0x000B009E, 1)]
   \<and> staged (ioctls (hit_key (sim_hiddev 0) CHR ''o'' sim_state)) =
       [(0x00080018, 0), (0x000B009E, 0), (0x00080017, 1)]
   \<and> staged (ioctls (hit_key (sim_hiddev 0) CHR ''o'' (sim_state\<lparr>hookstate := 1\<rparr>))) =
       [(0x00080017, 0)]
   \<and> staged (ioctls (process_event (sim_hiddev 0) (hook_event 0) (sim_state\<lparr>hookstate := 1\<rparr>))) =
       [(0x00080017, 0)]"
proof -
  have l: "lnot (ringerstate sim_state) = 1" by (simp add: lnot_def sim_state_def)
  have h: "hookstate sim_state = 0" by (simp add: sim_state_def)
  from ringer_toggle_pair [of "sim_hiddev 0" sim_state 0]
  have r: "hit_key (sim_hiddev 0) CHR ''r'' sim_state =
     write_output (sim_hiddev 0) TelephonyUsagePage Tel_Ringer 1
       (write_output (sim_hiddev 0) LEDUsagePage Led_Ring 1 (sim_state\<lparr>ringerstate := 1\<rparr>))"
    and o: "hit_key (sim_hiddev 0) CHR ''o'' sim_state =
      fprintf_stdout ''<-- Lift Hook\<newline>'' []
        (write_output (sim_hiddev 0) LEDUsagePage Led_Off_Hook 1
           (ring_cancel (sim_hiddev 0) (sim_state\<lparr>hookstate := 1\<rparr>)))"
    by (simp_all add: l h)
  from ringer_toggle_pair [of "sim_hiddev 0" "sim_state\<lparr>hookstate := 1\<rparr>" 0]
  have o': "hit_key (sim_hiddev 0) CHR ''o'' (sim_state\<lparr>hookstate := 1\<rparr>) =
      fprintf_stdout ''<-- Put back Hook\<newline>'' []
        (write_output (sim_hiddev 0) LEDUsagePage Led_Off_Hook 0 (sim_state\<lparr>hookstate := 0\<rparr>))"
    and p: "process_event (sim_hiddev 0) (hook_event 0) (sim_state\<lparr>hookstate := 1\<rparr>) =
      fprintf_stdout ''--> Hook in place\<newline>'' []
        ((write_output (sim_hiddev 0) LEDUsagePage Led_Off_Hook 0
            (sim_state\<lparr>hookstate := 1\<rparr>))\<lparr>hookstate := 0\<rparr>)"
    by simp_all
  show ?thesis unfolding r o o' p by (simp add: eval_defs)
qed

lemma hit_key_o_hookstate: "hookstate (hit_key io CHR ''o'' s) = lnot (hookstate s)"
  by (simp add: hit_key_def Let_def writeUsage_keeps fprintf_stdout_def)

lemma hit_key_m_mutestate: "mutestate (hit_key io CHR ''m'' s) = lnot (mutestate s)"
  by (simp add: hit_key_def Let_def writeUsage_keeps fprintf_stdout_def)

lemma hit_key_r_ringerstate: "ringerstate (hit_key io CHR ''r'' s) = lnot (ringerstate s)"
  by (simp add: hit_key_def Let_def writeUsage_keeps)

lemma lnot_lnot: "is_bool x \<Longrightarrow> lnot (lnot x) = x"
  by (auto simp add: is_bool_def lnot_def)

lemma lnot_lnot_zero: "(lnot (lnot x) = 0) = (x = 0)"
  by (simp add: lnot_def)

text \<open>
  Claim C8. Issuing one of the keys \<open>o\<close>, \<open>m\<close>, \<open>r\<close> twice in a row gives the
  corresponding stored state its original value back when that value is a boolean (0 or
  1); for any stored \<open>int\<close> the truth value of the state is the original one.
\<close>

theorem double_toggle_identity:
  "(is_bool (hookstate s) \<longrightarrow>
      hookstate (hit_key io CHR ''o'' (hit_key io CHR ''o'' s)) = hookstate s)
   \<and> (is_bool (mutestate s) \<longrightarrow>
      mutestate (hit_key io CHR ''m'' (hit_key io CHR ''m'' s)) = mutestate s)
   \<and> (is_bool (ringerstate s) \<longrightarrow>
      ringerstate (hit_key io CHR ''r'' (hit_key io CHR ''r'' s)) = ringerstate s)
   \<and> (hookstate (hit_key io CHR ''o'' (hit_key io CHR ''o'' s)) = 0) = (hookstate s = 0)
   \<and> (mutestate (hit_key io CHR ''m'' (hit_key io CHR ''m'' s)) = 0) = (mutestate s = 0)
   \<and> (ringerstate (hit_key io CHR ''r'' (hit_key io CHR ''r'' s)) = 0) = (ringerstate s = 0)"
proof -
  have o: "hookstate (hit_key io CHR ''o'' (hit_key io CHR ''o'' s)) = lnot (lnot (hookstate s))"
    by (simp add: hit_key_o_hookstate)
  have m: "mutestate (hit_key io CHR ''m'' (hit_key io CHR ''m'' s)) = lnot (lnot (mutestate s))"
    by (simp add: hit_key_m_mutestate)
  have r: "ringerstate (hit_key io CHR ''r'' (hit_key io CHR ''r'' s)) = lnot (lnot (ringerstate s))"
    by (simp add: hit_key_r_ringerstate)
  show ?thesis
    unfolding o m r by (simp add: lnot_lnot lnot_lnot_zero)
qed

theorem double_toggle_identity_witness:
  "is_bool (hookstate sim_state) \<and> is_bool (mutestate sim_state) \<and> is_bool (ringerstate sim_state)
   \<and> mutestate (hit_key (sim_hiddev 0) CHR ''m'' (hit_key (sim_hiddev 0) CHR ''m'' sim_state)) = 0
   \<and> hookstate (hit_key (sim_hiddev 0) CHR ''o'' (hit_key (sim_hiddev 0) CHR ''o'' sim_state)) = 0
   \<and> ringerstate (hit_key (sim_hiddev 0) CHR ''r'' (hit_key (sim_hiddev 0) CHR ''r'' sim_state)) = 0"
proof -
  have b: "is_bool (hookstate sim_state)" "is_bool (mutestate sim_state)"
    "is_bool (ringerstate sim_state)"
    by (simp_all add: is_bool_def sim_state_def)
  from double_toggle_identity [of sim_state "sim_hiddev 0"] b show ?thesis
    by (simp add: sim_state_def)
qed

text \<open>
  The scenario of the specification: two mute toggles from \<open>mutestate = 0\<close> stage the
  mute LED at 1 and then at 0.
\<close>

lemma mute_twice_scenario:
  "mutestate (hit_key (sim_hiddev 0) CHR ''m'' sim_state) = 1
   \<and> staged (ioctls (hit_key (sim_hiddev 0) CHR ''m'' sim_state)) = [(0x00080009, 1)]"
  "mutestate (hit_key (sim_hiddev 0) CHR ''m'' (hit_key (sim_hiddev 0) CHR ''m'' sim_state)) = 0
   \<and> staged (ioctls (hit_key (sim_hiddev 0) CHR ''m'' (hit_key (sim_hiddev 0) CHR ''m'' sim_state))) =
       [(0x00080009, 1), (0x00080009, 0)]"
  by (simp_all add: hit_key_def lnot_def eval_defs)

section \<open>Serialised hook operations\<close>

lemma hook_event_hookstate: "hookstate (process_event io (hook_event v) s) = v"
  by (simp add: process_event_def hook_event_decode Let_def writeUsage_keeps fprintf_stdout_def)

lemma truth_bit_lnot: "truth_bit (lnot h) = truth_bit h XOR 1"
  by (simp add: truth_bit_def lnot_def)

lemma truth_bit_bool: "is_bool x \<Longrightarrow> truth_bit x = x"
  by (auto simp add: truth_bit_def is_bool_def)

lemma truth_bit_zero: "(truth_bit x = 0) = (x = 0)"
  by (simp add: truth_bit_def)

lemma is_bool_lnot: "is_bool (lnot h)"
  by (simp add: is_bool_def lnot_def)

lemma xor_cancel: "h XOR (h XOR v) = (v :: s32)"
  by (simp add: xor.assoc [symmetric])

lemma run_hook_ops_bool:
  "is_bool (hookstate s) \<Longrightarrow> hw_values_bool ops \<Longrightarrow> is_bool (hookstate (run_hook_ops io ops s))"
proof (induction ops arbitrary: s)
  case Nil
  then show ?case by simp
next
  case (Cons x xs)
  show ?case
  proof (cases x)
    case (HwHook v)
    with Cons.prems have "is_bool v" and rest: "hw_values_bool xs" by simp_all
    then have "is_bool (hookstate (process_event io (hook_event v) s))"
      by (simp add: hook_event_hookstate)
    from Cons.IH [OF this rest] show ?thesis by (simp add: HwHook)
  next
    case UserToggle
    with Cons.prems have rest: "hw_values_bool xs" by simp
    have "is_bool (hookstate (hit_key io CHR ''o'' s))"
      by (simp add: hit_key_o_hookstate is_bool_lnot)
    from Cons.IH [OF this rest] show ?thesis by (simp add: UserToggle)
  qed
qed

text \<open>
  Claim C9. Hardware hook-switch events and user hook toggles are each handled with the
  mutex held, so a run is their sequence in arrival order. For every initial state,
  every such sequence and every driver, the hook state after the run, as a boolean, is
  the initial hook state with the effect bit of every operation XORed in, in order: no
  operation of the sequence is lost. When the initial state and the reported values
  are 0 or 1, the same holds of the stored \<open>int\<close> itself.
\<close>

theorem hook_ops_xor:
  "truth_bit (hookstate (run_hook_ops io ops s)) =
     xor_hook_effects (truth_bit (hookstate s)) ops
   \<and> (is_bool (hookstate s) \<and> hw_values_bool ops \<longrightarrow>
        hookstate (run_hook_ops io ops s) = xor_hook_effects (hookstate s) ops)"
proof -
  have bits: "truth_bit (hookstate (run_hook_ops io ops s)) =
      xor_hook_effects (truth_bit (hookstate s)) ops"
  proof (induction ops arbitrary: s)
    case Nil
    show ?case by simp
  next
    case (Cons x xs)
    show ?case
    proof (cases x)
      case (HwHook v)
      have "truth_bit (hookstate (run_hook_ops io xs (process_event io (hook_event v) s))) =
          xor_hook_effects (truth_bit v) xs"
        using Cons.IH [of "process_event io (hook_event v) s"]
        by (simp add: hook_event_hookstate)
      then show ?thesis by (simp add: HwHook xor_cancel)
    next
      case UserToggle
      have "truth_bit (hookstate (run_hook_ops io xs (hit_key io CHR ''o'' s))) =
          xor_hook_effects (truth_bit (hookstate s) XOR 1) xs"
        using Cons.IH [of "hit_key io CHR ''o'' s"]
        by (simp add: hit_key_o_hookstate truth_bit_lnot)
      then show ?thesis by (simp add: UserToggle)
    qed
  qed
  have ints: "hookstate (run_hook_ops io ops s) = xor_hook_effects (hookstate s) ops"
    if b: "is_bool (hookstate s)" and v: "hw_values_bool ops"
  proof -
    have "is_bool (hookstate (run_hook_ops io ops s))"
      using b v by (rule run_hook_ops_bool)
    then have "hookstate (run_hook_ops io ops s) = truth_bit (hookstate (run_hook_ops io ops s))"
      by (simp add: truth_bit_bool)
    with bits show ?thesis by (simp add: truth_bit_bool [OF b])
  qed
  from bits ints show ?thesis by blast
qed

text \<open>
  Four runs. In the first two every value is 0 or 1: dropping the hardware event or any
  one toggle of the first, or all toggles of the second, changes the result. In the
  last two the device reports 2 and 5, which the code stores as they are.
\<close>

theorem hook_ops_xor_witness:
  "is_bool (hookstate sim_state)
   \<and> hw_values_bool [HwHook 1, UserToggle, UserToggle]
   \<and> hw_values_bool [UserToggle, HwHook 1, HwHook 0, UserToggle, UserToggle, UserToggle]
   \<and> hookstate (run_hook_ops (sim_hiddev 0) [HwHook 1, UserToggle, UserToggle] sim_state) = 1
   \<and> hookstate (run_hook_ops (sim_hiddev 0)
        [UserToggle, HwHook 1, HwHook 0, UserToggle, UserToggle, UserToggle] sim_state) = 1
   \<and> hookstate (run_hook_ops (sim_hiddev 0) [HwHook 2, UserToggle] sim_state) = 0
   \<and> truth_bit (hookstate (run_hook_ops (sim_hiddev 0) [UserToggle, HwHook 5] sim_state)) = 1"
proof -
  have a: "is_bool (hookstate sim_state)" by (simp add: is_bool_def sim_state_def)
  have b1: "hw_values_bool [HwHook 1, UserToggle, UserToggle]"
    and b2: "hw_values_bool [UserToggle, HwHook 1, HwHook 0, UserToggle, UserToggle, UserToggle]"
    by (simp_all add: is_bool_def)
  have h0: "hookstate sim_state = 0" by (simp add: sim_state_def)
  from hook_ops_xor [of "sim_hiddev 0" "[HwHook 1, UserToggle, UserToggle]" sim_state] a b1
  have r1: "hookstate (run_hook_ops (sim_hiddev 0) [HwHook 1, UserToggle, UserToggle] sim_state) = 1"
    by (simp add: h0 truth_bit_def)
  from hook_ops_xor [of "sim_hiddev 0"
      "[UserToggle, HwHook 1, HwHook 0, UserToggle, UserToggle, UserToggle]" sim_state] a b2
  have r2: "hookstate (run_hook_ops (sim_hiddev 0)
      [UserToggle, HwHook 1, HwHook 0, UserToggle, UserToggle, UserToggle] sim_state) = 1"
    by (simp add: h0 truth_bit_def)
  from hook_ops_xor [of "sim_hiddev 0" "[HwHook 2, UserToggle]" sim_state]
  have "truth_bit (hookstate (run_hook_ops (sim_hiddev 0) [HwHook 2, UserToggle] sim_state)) = 0"
    by (simp add: h0 truth_bit_def)
  then have r3: "hookstate (run_hook_ops (sim_hiddev 0) [HwHook 2, UserToggle] sim_state) = 0"
    by (simp only: truth_bit_zero)
  from hook_ops_xor [of "sim_hiddev 0" "[UserToggle, HwHook 5]" sim_state]
  have r4: "truth_bit (hookstate (run_hook_ops (sim_hiddev 0) [UserToggle, HwHook 5] sim_state)) = 1"
    by (simp add: h0 truth_bit_def)
  from a b1 b2 r1 r2 r3 r4 show ?thesis by blast
qed

section \<open>Shutdown and exit status\<close>

text \<open>
  Claim C6. When the background thread, at the loop head with \<open>run = 1\<close> and a ready
  descriptor, reads fewer bytes than one event record (a negative result included), it
  sets \<open>run\<close> to 0 and returns \<open>(void*) -1\<close>, which is not 0; the next pass of the
  foreground loop then leaves the loop without handling any key.
\<close>

theorem short_read_shutdown:
  assumes running: "run s = 1" and ready: "0 <s sel w" and short: "rd w <s sizeof_hiddev_event"
  shows "event_loop_step io (BgWake w) AtLoopHead s = event_loop_wake w s
       \<and> run (fst (event_loop_wake w s)) = 0
       \<and> snd (event_loop_wake w s) = Returned (- 1)
       \<and> (- 1 :: s32) \<noteq> 0
       \<and> run_until_exit io (Fg c # ts) (snd (event_loop_wake w s)) (fst (event_loop_wake w s)) =
           Some (ts, Returned (- 1), fst (event_loop_wake w s))"
  using assms
  by (simp add: event_loop_wake_def main_loop_step_def Let_def)

theorem short_read_shutdown_witness:
  "run sim_state = 1 \<and> (0::s32) <s 1 \<and> (4::s32) <s sizeof_hiddev_event
   \<and> run (fst (event_loop_wake \<lparr>sel = 1, rd = 4, buf = []\<rparr> sim_state)) = 0
   \<and> run_until_exit (sim_hiddev 0) [Fg (Some CHR ''m'')]
        (snd (event_loop_wake \<lparr>sel = 1, rd = 4, buf = []\<rparr> sim_state))
        (fst (event_loop_wake \<lparr>sel = 1, rd = 4, buf = []\<rparr> sim_state)) =
       Some ([], Returned (- 1), fst (event_loop_wake \<lparr>sel = 1, rd = 4, buf = []\<rparr> sim_state))"
proof -
  have a: "run sim_state = 1" by (simp add: sim_state_def)
  have b: "(0::s32) <s sel \<lparr>sel = 1, rd = 4, buf = []\<rparr>"
    by (simp add: word_sless_alt)
  have c: "rd \<lparr>sel = 1, rd = 4, buf = []\<rparr> <s sizeof_hiddev_event"
    by (simp add: word_sless_alt sizeof_hiddev_event_def)
  from short_read_shutdown [OF a b c, of "sim_hiddev 0" "Some CHR ''m''" "[]"] a b c
  show ?thesis by (elim conjE) (simp del: run_until_exit.simps)
qed

subsection \<open>The return value of main\<close>

lemma dec_0: "dec 0 = ''0''"
  by code_simp

lemma run_and_join_retval:
  "run_and_join io sy ticks rv s = Some (r, s') \<Longrightarrow> r = (if pthread_join sy = 0 then rv else - 1)"
  by (auto simp add: run_and_join_def split: option.splits if_splits)

lemma main_retval:
  assumes "main io sy ticks d = Some (r, s)"
  shows "r = (if fst (scan sy 0 (startup d)) \<noteq> 19
               \<and> \<not> (fst (open_device sy (hiddev_name (fst (scan sy 0 (startup d))))) <s 0
                    \<and> snd (open_device sy (hiddev_name (fst (scan sy 0 (startup d))))) = EACCES)
               \<and> pthread_create sy = 0 \<and> pthread_join sy = 0
             then 0 else - 1)"
  using assms
  by (auto simp add: main_def Let_def split: prod.splits if_splits dest: run_and_join_retval)

lemma readUsage_run:
  "p \<noteq> Addr_run \<Longrightarrow> run (readUsage io f rt page code p s) = run s"
  by (cases p) (simp_all add: readUsage_def io_defs Let_def case_prod_beta)

lemma doListDev_run: "run (snd (doListDev sy path s)) = run s"
  by (simp add: doListDev_def perror_def case_prod_beta)

lemma scan_run: "run (snd (scan sy i s)) = run s"
proof (induction sy i s rule: scan.induct)
  case (1 sy i s)
  show ?case
  proof (cases "i < 19")
    case True
    obtain r s' where d: "doListDev sy (hiddev_name i) s = (r, s')" by (cases "doListDev sy (hiddev_name i) s")
    have rs: "run s' = run s" using doListDev_run [of sy "hiddev_name i" s] d by simp
    show ?thesis
    proof (cases "r = 1")
      case True
      with \<open>i < 19\<close> d rs show ?thesis by (simp add: scan.simps [of sy i s])
    next
      case False
      with "1.IH" [OF \<open>i < 19\<close> d [symmetric]] \<open>i < 19\<close> d rs show ?thesis
        by (simp add: scan.simps [of sy i s])
    qed
  next
    case False
    then show ?thesis by (simp add: scan.simps [of sy i s])
  qed
qed

lemma hit_key_help_run: "run (hit_key io CHR ''?'' s) = run s"
  by (simp add: hit_key_def fprintf_stdout_def Let_def)

lemma short_read_exit:
  assumes "run s = 1" "0 <s sel w" "rd w <s sizeof_hiddev_event"
  shows "run_until_exit io (BgWake w # Fg c # ts) AtLoopHead s =
           Some (ts, Returned (- 1), fst (event_loop_wake w s))"
  using assms by (simp add: event_loop_wake_def main_loop_step_def Let_def)

lemma init_device_run: "run (init_device io name s) = run s"
  by (simp add: init_device_def Let_def case_prod_beta readUsage_run fprintf_stdout_def
      ioctl_INITREPORT_def ioctl_GNAME_def)

lemma run_and_join_short_read:
  assumes "run s = 1" "0 <s sel w" "rd w <s sizeof_hiddev_event" "pthread_join sy = 0"
  shows "\<exists>s'. run_and_join io sy (BgWake w # Fg c # ts) rv s = Some (rv, s')"
proof -
  have "run (hit_key io CHR ''?'' s) = 1"
    using assms(1) by (simp add: hit_key_help_run)
  from short_read_exit [OF this assms(2,3), of io c ts] show ?thesis
    unfolding run_and_join_def using assms(4) by simp
qed

lemma main_short_read:
  assumes found: "fst (scan sy 0 (startup d)) \<noteq> 19"
      and opened: "\<not> (fst (open_device sy (hiddev_name (fst (scan sy 0 (startup d))))) <s 0
                    \<and> snd (open_device sy (hiddev_name (fst (scan sy 0 (startup d))))) = EACCES)"
      and created: "pthread_create sy = 0"
      and joined: "pthread_join sy = 0"
      and ready: "0 <s sel w"
      and short: "rd w <s sizeof_hiddev_event"
  shows "\<exists>s. main io sy (BgWake w # Fg c # ts) d = Some (0, s)"
proof -
  obtain i s0 where sc: "scan sy 0 (startup d) = (i, s0)"
    by (cases "scan sy 0 (startup d)")
  obtain f e where op: "open_device sy (hiddev_name i) = (f, e)"
    by (cases "open_device sy (hiddev_name i)")
  have r0: "run s0 = 1"
    using scan_run [of sy 0 "startup d"] sc by (simp add: startup_def)
  let ?s = "init_device io (hiddev_name i)
              ((fprintf_stdout ''Using device %s\<newline>'' [S (hiddev_name i)] s0)\<lparr>fd := f\<rparr>)"
  have r1: "run ?s = 1"
    by (simp add: init_device_run fprintf_stdout_def r0)
  from run_and_join_short_read [OF r1 ready short joined, of io c ts 0]
  obtain s' where "run_and_join io sy (BgWake w # Fg c # ts) 0 ?s = Some (0, s')" by blast
  with found opened created sc op show ?thesis
    by (simp add: main_def Let_def)
qed

lemma quit_exit:
  assumes "run s = 1"
  shows "run_until_exit io (Fg (Some CHR ''q'') # Fg c # ts) AtLoopHead s =
           Some (ts, AtLoopHead, s\<lparr>run := 0\<rparr>)"
  using assms by (simp add: main_loop_step_def hit_key_def)

lemma run_and_join_quit:
  assumes "run s = 1" "pthread_join sy = 0"
  shows "\<exists>s'. run_and_join io sy (Fg (Some CHR ''q'') # Fg c # BgWake w # ts) rv s = Some (rv, s')"
proof -
  have "run (hit_key io CHR ''?'' s) = 1"
    using assms(1) by (simp add: hit_key_help_run)
  from quit_exit [OF this, of io c "BgWake w # ts"] show ?thesis
    unfolding run_and_join_def using assms(2) by (simp add: event_loop_wake_def)
qed

lemma main_quit:
  assumes found: "fst (scan sy 0 (startup d)) \<noteq> 19"
      and opened: "\<not> (fst (open_device sy (hiddev_name (fst (scan sy 0 (startup d))))) <s 0
                    \<and> snd (open_device sy (hiddev_name (fst (scan sy 0 (startup d))))) = EACCES)"
      and created: "pthread_create sy = 0"
      and joined: "pthread_join sy = 0"
  shows "\<exists>s. main io sy (Fg (Some CHR ''q'') # Fg c # BgWake w # ts) d = Some (0, s)"
proof -
  obtain i s0 where sc: "scan sy 0 (startup d) = (i, s0)"
    by (cases "scan sy 0 (startup d)")
  obtain f e where op: "open_device sy (hiddev_name i) = (f, e)"
    by (cases "open_device sy (hiddev_name i)")
  have r0: "run s0 = 1"
    using scan_run [of sy 0 "startup d"] sc by (simp add: startup_def)
  let ?s = "init_device io (hiddev_name i)
              ((fprintf_stdout ''Using device %s\<newline>'' [S (hiddev_name i)] s0)\<lparr>fd := f\<rparr>)"
  have r1: "run ?s = 1"
    by (simp add: init_device_run fprintf_stdout_def r0)
  from run_and_join_quit [OF r1 joined, of io c w ts 0]
  obtain s' where "run_and_join io sy (Fg (Some CHR ''q'') # Fg c # BgWake w # ts) 0 ?s = Some (0, s')"
    by blast
  with found opened created sc op show ?thesis
    by (simp add: main_def Let_def)
qed

text \<open>
  Claim C5. The return value of \<open>main\<close> is 0 after a quit with a successful join
  (\<open>main_quit\<close>) and \<open>-1\<close> when no device is found, when the device cannot be
  opened for lack of permission, when the thread cannot be created and when the join
  fails (\<open>main_retval\<close>). A short or failed read on the background thread does not make it
  non-zero (\<open>main_short_read\<close>): the thread returns \<open>(void*) -1\<close>, but \<open>main\<close>
  joins with \<open>NULL\<close> and returns \<open>retval\<close>, which is still 0. The run below finds the
  device, opens it, starts the thread, and the first \<open>read\<close> fails with \<open>-1\<close>.
\<close>

theorem main_failed_read_returns_0:
  "snd (event_loop_wake \<lparr>sel = 1, rd = - 1, buf = []\<rparr> (startup sim_leds)) = Returned (- 1)
   \<and> map_option fst (main (sim_hiddev 0) sim_sys
        [BgWake \<lparr>sel = 1, rd = - 1, buf = []\<rparr>, Fg None] sim_leds) = Some 0"
proof -
  have sc: "scan sim_sys 0 (startup sim_leds) = (0, startup sim_leds)"
    by (subst scan.simps)
      (simp add: doListDev_def sim_sys_def hiddev_name_def dec_0 JABRA_VID_def)
  have found: "fst (scan sim_sys 0 (startup sim_leds)) \<noteq> 19"
    by (simp add: sc)
  have opened: "\<not> (fst (open_device sim_sys (hiddev_name (fst (scan sim_sys 0 (startup sim_leds))))) <s 0
      \<and> snd (open_device sim_sys (hiddev_name (fst (scan sim_sys 0 (startup sim_leds))))) = EACCES)"
    by (simp add: sim_sys_def word_sless_alt)
  have ready: "0 <s sel \<lparr>sel = 1, rd = - 1, buf = []\<rparr>"
    by (simp add: word_sless_alt)
  have short: "rd \<lparr>sel = 1, rd = - 1, buf = []\<rparr> <s sizeof_hiddev_event"
    by (simp add: word_sless_alt sizeof_hiddev_event_def)
  have cj: "pthread_create sim_sys = 0" "pthread_join sim_sys = 0"
    by (simp_all add: sim_sys_def)
  from main_short_read [OF found opened cj ready short, of "sim_hiddev 0" None "[]"]
  have "map_option fst (main (sim_hiddev 0) sim_sys
          [BgWake \<lparr>sel = 1, rd = - 1, buf = []\<rparr>, Fg None] sim_leds) = Some 0"
    by auto
  moreover have "snd (event_loop_wake \<lparr>sel = 1, rd = - 1, buf = []\<rparr> (startup sim_leds)) =
      Returned (- 1)"
    using ready short by (simp add: event_loop_wake_def startup_def Let_def)
  ultimately show ?thesis by simp
qed

end
